theory Spec2Isabelle
  imports Complex_Main "HOL-Library.Word"
begin

section \<open>JavaScript values\<close>

text \<open>
  The values a handler of \<^verbatim>\<open>server.js\<close> sees in \<^verbatim>\<open>req.body\<close>: what
  \<^verbatim>\<open>JSON.parse\<close> produces, and \<^verbatim>\<open>undefined\<close> for a property that is absent. An
  object is the list of its own properties in insertion order; a property is read at its
  first entry.
\<close>

datatype jsnum = NaN | PosInfinity | NegInfinity | Fin rat

datatype jsval =
    JUndefined
  | JNull
  | JBool bool
  | JNum jsnum
  | JStr string
  | JArr "jsval list"
  | JObj "(string \<times> jsval) list"

text \<open>JavaScript's ToBoolean: \<^verbatim>\<open>!v\<close> in the source is \<open>\<not> truthy v\<close>.\<close>

fun truthy :: "jsval \<Rightarrow> bool" where
  "truthy JUndefined = False"
| "truthy JNull = False"
| "truthy (JBool b) = b"
| "truthy (JNum n) = (n \<noteq> NaN \<and> n \<noteq> Fin 0)"
| "truthy (JStr s) = (s \<noteq> [])"
| "truthy (JArr xs) = True"
| "truthy (JObj kvs) = True"

definition get_own :: "(string \<times> jsval) list \<Rightarrow> string \<Rightarrow> jsval" where
  "get_own kvs k = (case map_of kvs k of None \<Rightarrow> JUndefined | Some v \<Rightarrow> v)"

text \<open>
  \<^verbatim>\<open>v.k\<close> for the property names this program reads (\<^verbatim>\<open>name\<close>, \<^verbatim>\<open>age\<close>,
  \<^verbatim>\<open>bio\<close>, \<^verbatim>\<open>imageUrl\<close>, \<^verbatim>\<open>id\<close>, \<^verbatim>\<open>createdAt\<close>): none of them is a
  property of the array, string, number or boolean prototypes, so a value that is not an
  object answers \<^verbatim>\<open>undefined\<close>.
\<close>

fun get_prop :: "string \<Rightarrow> jsval \<Rightarrow> jsval" where
  "get_prop k (JObj kvs) = get_own kvs k"
| "get_prop k v = JUndefined"

datatype js_error = TypeError string | StoreError string | ContainerNotFound

text \<open>
  \<^verbatim>\<open>const { name, age, bio, imageUrl } = req.body\<close>: destructuring \<^verbatim>\<open>undefined\<close>
  or \<^verbatim>\<open>null\<close> throws a TypeError; any other value is read property by property.
\<close>

definition destructure :: "jsval \<Rightarrow> js_error + (jsval \<times> jsval \<times> jsval \<times> jsval)" where
  "destructure body =
     (if body = JUndefined \<or> body = JNull
      then Inl (TypeError ''Cannot destructure property of req.body'')
      else Inr (get_prop ''name'' body, get_prop ''age'' body, get_prop ''bio'' body, get_prop ''imageUrl'' body))"

section \<open>Library functions the handlers call\<close>

text \<open>
  The handlers call into Node's \<^verbatim>\<open>path\<close> module and the ECMAScript \<^verbatim>\<open>Date\<close>; neither
  is part of the source, and both are written here after their documentation.

  \<^verbatim>\<open>path.extname\<close> (POSIX flavour): the extension of the last path component, from its
  last dot to its end; empty when that component has no dot, when its only dot is its first
  character, and when it is \<^verbatim>\<open>..\<close>. Trailing separators are ignored.
\<close>

definition extname :: "string \<Rightarrow> string" where
  "extname p =
     (let trimmed = rev (dropWhile (\<lambda>c. c = CHR ''/'') (rev p));
          base = rev (takeWhile (\<lambda>c. c \<noteq> CHR ''/'') (rev trimmed));
          e = rev (takeWhile (\<lambda>c. c \<noteq> CHR ''.'') (rev base))
      in if CHR ''.'' \<notin> set base then []
         else if Suc (length e) = length base then []
         else if base = ''..'' then []
         else CHR ''.'' # e)"

subsection \<open>\<^verbatim>\<open>Date.prototype.toISOString\<close>\<close>

text \<open>
  A \<^verbatim>\<open>Date\<close> is a number of milliseconds since 1970-01-01T00:00:00Z. The calendar
  date of a day number is computed in the proleptic Gregorian calendar, in eras of 400 years
  (146097 days) whose years start in March, so that the leap day is the last day of a year:
  \<open>doe\<close> is the day of the era, \<open>yoe\<close> the year of the era, \<open>doy\<close> the day of that
  year and \<open>mp\<close> its month, counted from March.
\<close>

definition msPerDay :: int where
  "msPerDay = 86400000"

definition year_of_era :: "int \<Rightarrow> int" where
  "year_of_era doe = (doe - doe div 1460 + doe div 36524 - doe div 146096) div 365"

definition civil_from_days :: "int \<Rightarrow> int \<times> int \<times> int" where
  "civil_from_days days =
     (let z = days + 719468;
          era = z div 146097;
          doe = z mod 146097;
          yoe = year_of_era doe;
          doy = doe - (365 * yoe + yoe div 4 - yoe div 100);
          mp = (5 * doy + 2) div 153;
          d = doy - (153 * mp + 2) div 5 + 1;
          m = (if mp < 10 then mp + 3 else mp - 9);
          y = yoe + era * 400 + (if m \<le> 2 then 1 else 0)
      in (y, m, d))"

definition digit :: "int \<Rightarrow> char" where
  "digit d = ''0123456789'' ! nat (d mod 10)"

text \<open>\<open>pad w n\<close>: the last \<open>w\<close> decimal digits of \<open>n\<close>, most significant first.\<close>

fun pad :: "nat \<Rightarrow> int \<Rightarrow> string" where
  "pad 0 n = []"
| "pad (Suc w) n = pad w (n div 10) @ [digit n]"

text \<open>
  Years 0 to 9999 print with four digits; any other year prints in the expanded form, a sign
  and six digits.
\<close>

definition year_string :: "int \<Rightarrow> string" where
  "year_string y =
     (if 0 \<le> y \<and> y \<le> 9999 then pad 4 y
      else (if y < 0 then CHR ''-'' else CHR ''+'') # pad 6 \<bar>y\<bar>)"

definition toISOString :: "int \<Rightarrow> string" where
  "toISOString t =
     (let (y, m, d) = civil_from_days (t div msPerDay);
          r = t mod msPerDay
      in year_string y @ ''-'' @ pad 2 m @ ''-'' @ pad 2 d @ ''T''
         @ pad 2 (r div 3600000) @ '':'' @ pad 2 (r div 60000 mod 60) @ '':''
         @ pad 2 (r div 1000 mod 60) @ ''.'' @ pad 3 (r mod 1000) @ ''Z'')"

text \<open>
  What is asked of a creation timestamp: an ISO-8601 date-time in UTC with milliseconds,
  \<^verbatim>\<open>YYYY-MM-DDTHH:mm:ss.sssZ\<close>. That is 24 characters, decimal digits in the seven
  number fields, the separators between them, a month from 01 to 12, a day from 01 to 31, an
  hour up to 23, minutes and seconds up to 59.
\<close>

definition is_digit :: "char \<Rightarrow> bool" where
  "is_digit c = (c \<in> set ''0123456789'')"

definition digit_value :: "char \<Rightarrow> nat" where
  "digit_value c = of_char c - 48"

definition number :: "string \<Rightarrow> nat" where
  "number s = foldl (\<lambda>n c. 10 * n + digit_value c) 0 s"

definition field :: "string \<Rightarrow> nat \<Rightarrow> nat \<Rightarrow> string" where
  "field s i n = take n (drop i s)"

definition iso8601_utc :: "string \<Rightarrow> bool" where
  "iso8601_utc s =
     (length s = 24
      \<and> list_all is_digit (field s 0 4) \<and> s ! 4 = CHR ''-''
      \<and> list_all is_digit (field s 5 2) \<and> s ! 7 = CHR ''-''
      \<and> list_all is_digit (field s 8 2) \<and> s ! 10 = CHR ''T''
      \<and> list_all is_digit (field s 11 2) \<and> s ! 13 = CHR '':''
      \<and> list_all is_digit (field s 14 2) \<and> s ! 16 = CHR '':''
      \<and> list_all is_digit (field s 17 2) \<and> s ! 19 = CHR ''.''
      \<and> list_all is_digit (field s 20 3) \<and> s ! 23 = CHR ''Z''
      \<and> 1 \<le> number (field s 5 2) \<and> number (field s 5 2) \<le> 12
      \<and> 1 \<le> number (field s 8 2) \<and> number (field s 8 2) \<le> 31
      \<and> number (field s 11 2) \<le> 23
      \<and> number (field s 14 2) \<le> 59
      \<and> number (field s 17 2) \<le> 59)"

section \<open>The world outside the process\<close>

type_synonym byte = "8 word"

record blob =
  content :: "byte list"
  blobContentType :: string

text \<open>Every call the handlers make on the two storage SDK clients.\<close>

datatype store_call =
    CreateIfNotExists
  | UploadData string "byte list" string
  | ItemsCreate jsval
  | ItemsQuery string "(string \<times> jsval) list"

text \<open>
  The state the handlers read and change: the items of the Cosmos container, the blob
  container (whether it exists, and its blobs by name), the trace of SDK calls issued so far,
  the errors written with \<^verbatim>\<open>console.error\<close>, the identifiers \<^verbatim>\<open>uuidv4()\<close> will
  return and how many were drawn, and the clock. What the services do on their own is
  a parameter: \<open>fault n c\<close> is the error with which the call \<open>c\<close>, issued as call number
  \<open>n\<close>, is rejected (\<open>None\<close>: it goes through); \<open>system_props d\<close> are the properties
  the document store adds to a stored item \<open>d\<close>; \<open>blob_url n\<close> is the URL of the blob
  named \<open>n\<close>.
\<close>

record world =
  documents :: "jsval list"
  container_exists :: bool
  blobs :: "string \<rightharpoonup> blob"
  calls :: "store_call list"
  console :: "js_error list"
  uuid_source :: "nat \<Rightarrow> string"
  uuid_drawn :: nat
  clock :: int
  fault :: "nat \<Rightarrow> store_call \<Rightarrow> js_error option"
  system_props :: "jsval \<Rightarrow> (string \<times> jsval) list"
  blob_url :: "string \<Rightarrow> string"

text \<open>Issuing a call: it is appended to the trace, and the service accepts or rejects it.\<close>

definition invoke :: "store_call \<Rightarrow> world \<Rightarrow> js_error option \<times> world" where
  "invoke c w = (fault w (length (calls w)) c, w\<lparr>calls := calls w @ [c]\<rparr>)"

definition uuidv4 :: "world \<Rightarrow> string \<times> world" where
  "uuidv4 w = (uuid_source w (uuid_drawn w), w\<lparr>uuid_drawn := Suc (uuid_drawn w)\<rparr>)"

text \<open>\<^verbatim>\<open>blobContainerClient.createIfNotExists()\<close>\<close>

definition createIfNotExists :: "world \<Rightarrow> (js_error + unit) \<times> world" where
  "createIfNotExists w =
     (case invoke CreateIfNotExists w of
        (Some e, w1) \<Rightarrow> (Inl e, w1)
      | (None, w1) \<Rightarrow> (Inr (), w1\<lparr>container_exists := True\<rparr>))"

text \<open>
  \<^verbatim>\<open>blockBlobClient.uploadData(buffer, { blobHTTPHeaders: { blobContentType } })\<close>
  on the client of the blob \<open>blobName\<close>: the blob is written (or overwritten) in an existing
  container.
\<close>

definition uploadData :: "string \<Rightarrow> byte list \<Rightarrow> string \<Rightarrow> world \<Rightarrow> (js_error + unit) \<times> world" where
  "uploadData blobName buffer ctype w =
     (case invoke (UploadData blobName buffer ctype) w of
        (Some e, w1) \<Rightarrow> (Inl e, w1)
      | (None, w1) \<Rightarrow>
          if container_exists w1
          then (Inr (), w1\<lparr>blobs := (blobs w1)(blobName \<mapsto> \<lparr>content = buffer, blobContentType = ctype\<rparr>)\<rparr>)
          else (Inl ContainerNotFound, w1))"

text \<open>The item as the document store holds it: what was handed in, then the store's own
  properties.\<close>

definition stored :: "world \<Rightarrow> jsval \<Rightarrow> jsval" where
  "stored w doc = (case doc of JObj kvs \<Rightarrow> JObj (kvs @ system_props w doc) | _ \<Rightarrow> doc)"

text \<open>\<^verbatim>\<open>cosmosContainer.items.create(doc)\<close>\<close>

definition items_create :: "jsval \<Rightarrow> world \<Rightarrow> (js_error + unit) \<times> world" where
  "items_create doc w =
     (case invoke (ItemsCreate doc) w of
        (Some e, w1) \<Rightarrow> (Inl e, w1)
      | (None, w1) \<Rightarrow> (Inr (), w1\<lparr>documents := documents w1 @ [stored w1 doc]\<rparr>))"

definition query_text :: string where
  "query_text = ''SELECT * FROM c WHERE c.id = @id''"

text \<open>
  \<^verbatim>\<open>cosmosContainer.items.query(query).fetchAll()\<close> for the one query of this program:
  the items whose \<^verbatim>\<open>id\<close> is the parameter \<^verbatim>\<open>@id\<close>, in the order the store holds them.
\<close>

definition items_query_fetchAll :: "string \<Rightarrow> world \<Rightarrow> (js_error + jsval list option) \<times> world" where
  "items_query_fetchAll id' w =
     (case invoke (ItemsQuery query_text [(''@id'', JStr id')]) w of
        (Some e, w1) \<Rightarrow> (Inl e, w1)
      | (None, w1) \<Rightarrow> (Inr (Some (filter (\<lambda>c. get_prop ''id'' c = JStr id') (documents w1))), w1))"

section \<open>The HTTP handlers\<close>

datatype payload = Send string | Json jsval

record response =
  status :: nat
  payload :: payload

text \<open>The \<^verbatim>\<open>catch (err)\<close> block of each handler: log the error, answer 500 with a fixed text.\<close>

definition catch_err :: "string \<Rightarrow> js_error \<Rightarrow> world \<Rightarrow> response \<times> world" where
  "catch_err msg err w = (\<lparr>status = 500, payload = Send msg\<rparr>, w\<lparr>console := console w @ [err]\<rparr>)"

subsection \<open>\<^verbatim>\<open>POST /api/upload\<close>\<close>

text \<open>\<^verbatim>\<open>req.file\<close> as the multipart middleware leaves it.\<close>

record upload_file =
  originalname :: string
  mimetype :: string
  buffer :: "byte list"

definition post_api_upload :: "upload_file option \<Rightarrow> world \<Rightarrow> response \<times> world" where
  "post_api_upload file w =
     (case file of
        None \<Rightarrow> (\<lparr>status = 400, payload = Send ''No file uploaded. Field name must be 'photo'.''\<rparr>, w)
      | Some f \<Rightarrow>
          (case createIfNotExists w of
             (Inl err, w1) \<Rightarrow> catch_err ''Upload failed.'' err w1
           | (Inr _, w1) \<Rightarrow>
               let ext = (if extname (originalname f) = [] then ''.jpg'' else extname (originalname f));
                   (u, w2) = uuidv4 w1;
                   blobName = u @ ext
               in (case uploadData blobName (buffer f) (mimetype f) w2 of
                     (Inl err, w3) \<Rightarrow> catch_err ''Upload failed.'' err w3
                   | (Inr _, w3) \<Rightarrow>
                       (\<lparr>status = 200,
                         payload = Json (JObj [(''imageUrl'', JStr (blob_url w3 blobName))])\<rparr>, w3))))"

text \<open>The limit the source configures: \<^verbatim>\<open>limits: { fileSize: 4 * 1024 * 1024 }\<close>.\<close>

definition fileSize :: nat where
  "fileSize = 4 * 1024 * 1024"

datatype multer_error = LIMIT_FILE_SIZE

text \<open>
  Modelled from the spec: the multipart middleware \<^verbatim>\<open>upload.single("photo")\<close> that runs
  before the handler is a library, and its code is not part of the source. The spec: the input
  size is constrained to at most 4 MiB, and requests exceeding this are rejected by the
  receiving layer before reaching handler logic. The argument is the file the request carries
  under the field \<^verbatim>\<open>photo\<close>, if any; a file within the limit becomes \<^verbatim>\<open>req.file\<close>.
\<close>

definition upload_single :: "upload_file option \<Rightarrow> multer_error + upload_file option" where
  "upload_single photo =
     (case photo of
        None \<Rightarrow> Inr None
      | Some f \<Rightarrow> if length (buffer f) > fileSize then Inl LIMIT_FILE_SIZE else Inr (Some f))"

text \<open>The route: the middleware, then the handler unless the middleware rejected the request.\<close>

definition route_api_upload :: "upload_file option \<Rightarrow> world \<Rightarrow> (multer_error + response) \<times> world" where
  "route_api_upload photo w =
     (case upload_single photo of
        Inl e \<Rightarrow> (Inl e, w)
      | Inr file \<Rightarrow> (case post_api_upload file w of (r, w1) \<Rightarrow> (Inr r, w1)))"

subsection \<open>\<^verbatim>\<open>POST /api/profiles\<close>\<close>

definition new_doc :: "string \<Rightarrow> jsval \<Rightarrow> jsval \<Rightarrow> jsval \<Rightarrow> jsval \<Rightarrow> int \<Rightarrow> jsval" where
  "new_doc id' name age bio imageUrl now =
     JObj [(''id'', JStr id'), (''name'', name), (''age'', age), (''bio'', bio),
           (''imageUrl'', imageUrl), (''createdAt'', JStr (toISOString now))]"

definition post_api_profiles :: "jsval \<Rightarrow> world \<Rightarrow> response \<times> world" where
  "post_api_profiles body w =
     (case destructure body of
        Inl err \<Rightarrow> catch_err ''Create profile failed.'' err w
      | Inr (name, age, bio, imageUrl) \<Rightarrow>
          if \<not> truthy name \<or> age = JUndefined \<or> \<not> truthy bio \<or> \<not> truthy imageUrl
          then (\<lparr>status = 400,
                 payload = Send ''Missing fields: name, age, bio, imageUrl are required.''\<rparr>, w)
          else
            let (id', w1) = uuidv4 w;
                doc = new_doc id' name age bio imageUrl (clock w1)
            in (case items_create doc w1 of
                  (Inl err, w2) \<Rightarrow> catch_err ''Create profile failed.'' err w2
                | (Inr _, w2) \<Rightarrow> (\<lparr>status = 201, payload = Json doc\<rparr>, w2)))"

subsection \<open>\<^verbatim>\<open>GET /api/profiles/:id\<close>\<close>

definition get_api_profiles_id :: "string \<Rightarrow> world \<Rightarrow> response \<times> world" where
  "get_api_profiles_id id' w =
     (case items_query_fetchAll id' w of
        (Inl err, w1) \<Rightarrow> catch_err ''Read profile failed.'' err w1
      | (Inr resources, w1) \<Rightarrow>
          (case resources of
             None \<Rightarrow> (\<lparr>status = 404, payload = Send ''Not found''\<rparr>, w1)
           | Some [] \<Rightarrow> (\<lparr>status = 404, payload = Send ''Not found''\<rparr>, w1)
           | Some (r # rs) \<Rightarrow> (\<lparr>status = 200, payload = Json r\<rparr>, w1)))"

section \<open>Concrete instances\<close>

text \<open>
  Worlds and a request body on which the theorems below are instantiated: empty stores, no
  call rejected, the clock at 2023-11-14T22:13:20Z; the same with one profile stored; and the
  example body of the API description.
\<close>

definition world0 :: world where
  "world0 =
     \<lparr>documents = [], container_exists = False, blobs = Map.empty, calls = [], console = [],
      uuid_source = (\<lambda>n. ''3f2b-'' @ replicate n (CHR ''a'')), uuid_drawn = 0,
      clock = 1700000000000, fault = (\<lambda>n c. None),
      system_props = (\<lambda>d. [(''_etag'', JStr ''e1'')]),
      blob_url = (\<lambda>n. ''https://acct.blob.example/photos/'' @ n)\<rparr>"


definition ana :: jsval where
  "ana = JObj [(''name'', JStr ''Ana''), (''age'', JNum (Fin 30)), (''bio'', JStr ''hi''),
               (''imageUrl'', JStr ''https://x/y.jpg'')]"

definition me_png :: upload_file where
  "me_png = \<lparr>originalname = ''me.png'', mimetype = ''image/png'', buffer = [137, 80, 78, 71]\<rparr>"

definition portrait :: upload_file where
  "portrait = \<lparr>originalname = ''portrait'', mimetype = ''image/jpeg'', buffer = [255, 216, 255]\<rparr>"

text \<open>The store errors used in the instances.\<close>

definition outage :: js_error where
  "outage = StoreError ''connect ETIMEDOUT 10.0.0.4:443''"

text \<open>A world whose services reject every call, and one whose second call is rejected.\<close>

definition down :: world where
  "down = world0\<lparr>fault := (\<lambda>n c. Some outage)\<rparr>"

definition flaky :: world where
  "flaky = world0\<lparr>fault := (\<lambda>n c. if n = 1 then Some outage else None)\<rparr>"

text \<open>An upload one byte over the limit.\<close>

definition too_big :: upload_file where
  "too_big = \<lparr>originalname = ''big.png'', mimetype = ''image/png'',
               buffer = replicate (4 * 1024 * 1024 + 1) 0\<rparr>"


text \<open>The example body with an identifier, a timestamp and a flag of the client's own.\<close>

definition ana_forged :: jsval where
  "ana_forged = JObj [(''id'', JStr ''mine''), (''createdAt'', JStr ''1999-01-01T00:00:00.000Z''),
                      (''name'', JStr ''Ana''), (''age'', JNum (Fin 30)), (''bio'', JStr ''hi''),
                      (''imageUrl'', JStr ''https://x/y.jpg''), (''admin'', JBool True)]"

section \<open>Properties of the library functions\<close>

lemma digit_is_digit: "is_digit (digit n)"
proof -
  have "nat (n mod 10) < 10" by simp
  then have "''0123456789'' ! nat (n mod 10) \<in> set ''0123456789''"
    by (intro nth_mem) simp
  then show ?thesis by (simp only: is_digit_def digit_def)
qed

lemma length_pad: "length (pad w n) = w"
  by (induction w arbitrary: n) simp_all

lemma digits_pad: "list_all is_digit (pad w n)"
  by (induction w arbitrary: n) (simp_all add: digit_is_digit)

lemma digit_value_digit: "digit_value (digit n) = nat (n mod 10)"
proof -
  define i where "i = nat (n mod 10)"
  have "i < 10" by (simp add: i_def)
  then have "i \<in> {0, 1, 2, 3, 4, 5, 6, 7, 8, 9}" by auto
  then have "digit_value (''0123456789'' ! i) = i"
    by (auto simp add: digit_value_def)
  then show ?thesis by (simp add: digit_def i_def)
qed

lemma pad_2: "pad 2 n = [digit (n div 10), digit n]"
  by (simp add: numeral_2_eq_2)

lemma number_pad_2:
  assumes "0 \<le> n" and "n < 100"
  shows "number (pad 2 n) = nat n"
proof -
  have "n div 10 mod 10 = n div 10" using assms by simp
  then have "number (pad 2 n) = 10 * nat (n div 10) + nat (n mod 10)"
    by (simp add: pad_2 number_def digit_value_digit)
  also have "\<dots> = nat n"
  proof -
    have "0 \<le> n div 10" using assms(1) by (simp add: pos_imp_zdiv_nonneg_iff)
    then have "int (10 * nat (n div 10) + nat (n mod 10)) = n" by simp
    then show ?thesis by (metis nat_int)
  qed
  finally show ?thesis .
qed

lemma iso8601_utc_fields:
  assumes len: "length Y = 4" "length M = 2" "length D = 2" "length H = 2" "length Mi = 2"
    "length S = 2" "length Ms = 3"
    and dig: "list_all is_digit Y" "list_all is_digit M" "list_all is_digit D" "list_all is_digit H"
    "list_all is_digit Mi" "list_all is_digit S" "list_all is_digit Ms"
    and rng: "1 \<le> number M" "number M \<le> 12" "1 \<le> number D" "number D \<le> 31"
    "number H \<le> 23" "number Mi \<le> 59" "number S \<le> 59"
  shows "iso8601_utc (Y @ ''-'' @ M @ ''-'' @ D @ ''T'' @ H @ '':'' @ Mi @ '':'' @ S @ ''.'' @ Ms @ ''Z'')"
proof -
  let ?s = "Y @ ''-'' @ M @ ''-'' @ D @ ''T'' @ H @ '':'' @ Mi @ '':'' @ S @ ''.'' @ Ms @ ''Z''"
  have f: "field ?s 0 4 = Y" "field ?s 5 2 = M" "field ?s 8 2 = D" "field ?s 11 2 = H"
    "field ?s 14 2 = Mi" "field ?s 17 2 = S" "field ?s 20 3 = Ms"
    using len by (simp_all add: field_def)
  have n: "?s ! 4 = CHR ''-''" "?s ! 7 = CHR ''-''" "?s ! 10 = CHR ''T''" "?s ! 13 = CHR '':''"
    "?s ! 16 = CHR '':''" "?s ! 19 = CHR ''.''" "?s ! 23 = CHR ''Z''"
    using len by (simp_all add: nth_append)
  have l: "length ?s = 24" using len by simp
  show ?thesis
    unfolding iso8601_utc_def f n l using dig rng by (intro conjI) simp_all
qed

lemma yoe_nonneg:
  fixes doe :: int
  assumes "0 \<le> doe" "doe \<le> 146096"
  shows "0 \<le> year_of_era doe"
  using assms unfolding year_of_era_def by linarith

lemma yoe_le:
  fixes doe :: int
  assumes "0 \<le> doe" "doe \<le> 146096"
  shows "year_of_era doe \<le> 399"
proof (cases "doe = 146096")
  case True
  then show ?thesis by (simp add: year_of_era_def)
next
  case False
  with assms have "doe \<le> 146095" by simp
  with assms(1) show ?thesis unfolding year_of_era_def by linarith
qed

lemma yoe_last:
  fixes doe :: int
  assumes "146037 \<le> doe" "doe \<le> 146096"
  shows "year_of_era doe = 399"
proof (cases "doe = 146096")
  case True
  then show ?thesis by (simp add: year_of_era_def)
next
  case False
  with assms have le: "doe \<le> 146095" by simp
  from assms(1) le have a: "doe div 1460 = 100" by linarith
  from assms(1) le have b: "doe div 36524 = 3" by linarith
  from assms(1) le have c: "doe div 146096 = 0" by linarith
  from assms(1) le show ?thesis unfolding year_of_era_def a b c by linarith
qed

lemma civil_year_range:
  assumes lo: "- 719528 \<le> n" and hi: "n < 2932897"
  shows "0 \<le> fst (civil_from_days n) \<and> fst (civil_from_days n) \<le> 9999"
proof -
  define z where "z = n + 719468"
  define era where "era = z div 146097"
  define doe where "doe = z mod 146097"
  define yoe where "yoe = year_of_era doe"
  define doy where "doy = doe - (365 * yoe + yoe div 4 - yoe div 100)"
  define mp where "mp = (5 * doy + 2) div 153"
  define m where "m = (if mp < 10 then mp + 3 else mp - 9)"
  have y: "fst (civil_from_days n) = yoe + era * 400 + (if m \<le> 2 then 1 else 0)"
    by (simp only: civil_from_days_def Let_def z_def era_def doe_def yoe_def doy_def mp_def m_def fst_conv)
  have doe: "0 \<le> doe" "doe \<le> 146096" by (simp_all add: doe_def)
  have zr: "- 60 \<le> z" "z \<le> 3652364" using lo hi by (simp_all add: z_def)
  have zd: "z = era * 146097 + doe" by (simp add: era_def doe_def)
  have era: "- 1 \<le> era" "era \<le> 24" using zr unfolding era_def by linarith+
  have yoe: "0 \<le> yoe" "yoe \<le> 399"
    unfolding yoe_def using doe by (simp_all add: yoe_nonneg yoe_le)
  consider "era = - 1" | "0 \<le> era" "era \<le> 23" | "era = 24" using era by linarith
  then show ?thesis
  proof cases
    case 1
    with zd zr have d1: "146037 \<le> doe" by simp
    with doe have yv: "yoe = 399" unfolding yoe_def by (intro yoe_last)
    with d1 have "306 \<le> doy" by (simp add: doy_def)
    then have "10 \<le> mp" unfolding mp_def by linarith
    moreover have "doy \<le> 365" using doe yv by (simp add: doy_def)
    then have "mp \<le> 11" unfolding mp_def by linarith
    ultimately have "m \<le> 2" by (simp add: m_def)
    with 1 yv show ?thesis by (simp add: y)
  next
    case 2
    with yoe show ?thesis unfolding y by (auto split: if_splits)
  next
    case 3
    with zd zr have dle: "doe \<le> 146036" by simp
    show ?thesis
    proof (cases "yoe = 399")
      case True
      with dle have "doy \<le> 305" by (simp add: doy_def)
      then have "mp < 10" unfolding mp_def by linarith
      have "145635 \<le> doe - doe div 1460 + doe div 36524 - doe div 146096"
        using True unfolding yoe_def year_of_era_def by linarith
      moreover have "doe div 146096 = 0" using doe dle by linarith
      moreover have "doe div 36524 \<le> 3" using doe dle by linarith
      ultimately have n1: "145632 \<le> doe - doe div 1460" by linarith
      moreover have "0 \<le> doe div 1460" using doe by linarith
      ultimately have "145632 \<le> doe" by linarith
      then have "99 \<le> doe div 1460" by linarith
      with n1 have "145731 \<le> doe" by linarith
      with True have "0 \<le> doy" by (simp add: doy_def)
      then have "0 \<le> mp" unfolding mp_def by linarith
      with \<open>mp < 10\<close> have "\<not> m \<le> 2" by (simp add: m_def)
      with 3 True show ?thesis by (simp add: y)
    next
      case False
      with yoe have "yoe \<le> 398" by simp
      with yoe 3 show ?thesis unfolding y by (auto split: if_splits)
    qed
  qed
qed

lemma day_of_year_range:
  assumes "0 \<le> doe" and "doe \<le> 146096"
  defines "yoe \<equiv> year_of_era doe"
  shows "0 \<le> doe - (365 * yoe + yoe div 4 - yoe div 100)
       \<and> doe - (365 * yoe + yoe div 4 - yoe div 100) \<le> 365"
proof (cases "doe = 146096")
  case True
  then show ?thesis by (simp add: yoe_def year_of_era_def)
next
  case False
  with assms have inner: "doe \<le> 146095" by simp
  define b where "b = doe div 36524"
  define r where "r = doe mod 36524"
  define q where "q = r div 1461"
  define s where "s = r mod 1461"
  define k where "k = (if s = 1460 then 3 else s div 365)"
  define e where "e = (24 * b + q + s) div 1460"
  define Y where "Y = 100 * b + 4 * q + k"
  have r_eq: "doe = 36524 * b + r" by (simp add: b_def r_def)
  have s_eq: "r = 1461 * q + s" by (simp add: q_def s_def)
  have doe_eq: "doe = 36524 * b + 1461 * q + s" using r_eq s_eq by simp
  have b: "0 \<le> b" "b \<le> 3" using assms(1) inner unfolding b_def by linarith+
  have r: "0 \<le> r" "r \<le> 36523" by (simp_all add: r_def)
  have q: "0 \<le> q" "q \<le> 24" using r unfolding q_def by linarith+
  have s: "0 \<le> s" "s \<le> 1460" by (simp_all add: s_def)
  have k: "0 \<le> k" "k \<le> 3" "365 * k \<le> s" "s \<le> 365 * k + 365" "s \<noteq> 1460 \<longrightarrow> s \<le> 365 * k + 364"
    using s unfolding k_def by (auto split: if_splits) 
  have e: "0 \<le> e" "e \<le> 1" "1460 * e \<le> 24 * b + q + s" "24 * b + q + s \<le> 1460 * e + 1459"
    using b q s unfolding e_def by linarith+
  have a: "doe div 1460 = 25 * b + q + e"
    using e(3,4) doe_eq by linarith
  have c: "doe div 146096 = 0" using assms(1) inner by linarith
  have N: "doe - doe div 1460 + doe div 36524 - doe div 146096 = 365 * Y + (s - 365 * k - e)"
    unfolding a c b_def [symmetric] Y_def by (simp add: doe_eq)
  have rem: "0 \<le> s - 365 * k - e" "s - 365 * k - e \<le> 364"
  proof -
    consider "e = 0" | "e = 1" using e(1,2) by linarith
    then have "0 \<le> s - 365 * k - e \<and> s - 365 * k - e \<le> 364"
    proof cases
      case 1
      with e(4) b q have "s \<noteq> 1460" by linarith
      with k 1 show ?thesis by linarith
    next
      case 2
      with e(3) b q have "1364 \<le> s" by linarith
      then have "k = 3" using s unfolding k_def by (auto split: if_splits)
      with 2 \<open>1364 \<le> s\<close> s show ?thesis by linarith
    qed
    then show "0 \<le> s - 365 * k - e" "s - 365 * k - e \<le> 364" by blast+
  qed
  have yoe: "yoe = Y"
    unfolding yoe_def year_of_era_def N using rem by linarith
  have Y4: "Y div 4 = 25 * b + q" unfolding Y_def using k(1,2) by linarith
  have Y100: "Y div 100 = b" unfolding Y_def using k(1,2) q by linarith
  have "doe - (365 * yoe + yoe div 4 - yoe div 100) = s - 365 * k"
    unfolding yoe Y4 Y100 unfolding Y_def by (simp add: doe_eq)
  with k s show ?thesis by linarith
qed


lemma month_day_range:
  fixes doy :: int
  assumes "0 \<le> doy" and "doy \<le> 365"
  defines "mp \<equiv> (5 * doy + 2) div 153"
  shows "0 \<le> mp" and "mp \<le> 11"
    and "1 \<le> doy - (153 * mp + 2) div 5 + 1" and "doy - (153 * mp + 2) div 5 + 1 \<le> 31"
proof -
  have m: "153 * mp \<le> 5 * doy + 2" "5 * doy + 2 \<le> 153 * mp + 152"
    unfolding mp_def by linarith+
  show "0 \<le> mp" "mp \<le> 11" using assms(1,2) unfolding mp_def by linarith+
  define e where "e = (153 * mp + 2) div 5"
  have e: "5 * e \<le> 153 * mp + 2" "153 * mp + 2 \<le> 5 * e + 4"
    unfolding e_def by linarith+
  from m e have "5 * e \<le> 5 * doy + 4" "5 * doy \<le> 5 * e + 152" by linarith+
  then have "0 \<le> doy - e" "doy - e \<le> 30" by linarith+
  then show "1 \<le> doy - (153 * mp + 2) div 5 + 1" "doy - (153 * mp + 2) div 5 + 1 \<le> 31"
    unfolding e_def by linarith+
qed

lemma civil_month_day_range:
  assumes "civil_from_days n = (y, m, d)"
  shows "1 \<le> m \<and> m \<le> 12 \<and> 1 \<le> d \<and> d \<le> 31"
proof -
  define doe where "doe = (n + 719468) mod 146097"
  define yoe where "yoe = year_of_era doe"
  define doy where "doy = doe - (365 * yoe + yoe div 4 - yoe div 100)"
  define mp where "mp = (5 * doy + 2) div 153"
  have m: "m = (if mp < 10 then mp + 3 else mp - 9)"
    and d: "d = doy - (153 * mp + 2) div 5 + 1"
    using assms
    by (simp_all only: civil_from_days_def Let_def doe_def yoe_def doy_def mp_def prod.inject)
  have "0 \<le> doe" "doe \<le> 146096" by (simp_all add: doe_def)
  then have "0 \<le> doy \<and> doy \<le> 365"
    unfolding doy_def yoe_def by (rule day_of_year_range)
  then have doy: "0 \<le> doy" "doy \<le> 365" by blast+
  from month_day_range [OF doy]
  have "0 \<le> mp" "mp \<le> 11" "1 \<le> d" "d \<le> 31"
    unfolding mp_def [symmetric] d by blast+
  then show ?thesis by (simp add: m)
qed

lemma number_pad_2_range:
  assumes "lo \<le> n" and "n \<le> hi" and "0 \<le> lo" and "hi < 100"
  shows "nat lo \<le> number (pad 2 n) \<and> number (pad 2 n) \<le> nat hi"
proof -
  have "number (pad 2 n) = nat n" using assms by (intro number_pad_2) simp_all
  with assms(1,2) show ?thesis by (simp add: nat_mono)
qed

lemma toISOString_iso8601:
  assumes "- 62167219200000 \<le> t" and "t < 253402300800000"
  shows "iso8601_utc (toISOString t)"
proof -
  obtain y m d where c: "civil_from_days (t div msPerDay) = (y, m, d)"
    by (cases "civil_from_days (t div msPerDay)")
  define r where "r = t mod msPerDay"
  define hh where "hh = r div 3600000"
  define mi where "mi = r div 60000 mod 60"
  define ss where "ss = r div 1000 mod 60"
  have "- 719528 \<le> t div msPerDay" "t div msPerDay < 2932897"
    using assms unfolding msPerDay_def by linarith+
  then have "0 \<le> fst (civil_from_days (t div msPerDay)) \<and> fst (civil_from_days (t div msPerDay)) \<le> 9999"
    by (rule civil_year_range)
  with c have "year_string y = pad 4 y" by (simp add: year_string_def)
  then have shape: "toISOString t =
      pad 4 y @ ''-'' @ pad 2 m @ ''-'' @ pad 2 d @ ''T''
      @ pad 2 hh @ '':'' @ pad 2 mi @ '':'' @ pad 2 ss @ ''.'' @ pad 3 (r mod 1000) @ ''Z''"
    using c by (simp only: toISOString_def Let_def prod.case r_def hh_def mi_def ss_def)
  from civil_month_day_range [OF c]
  have md: "1 \<le> m" "m \<le> 12" "1 \<le> d" "d \<le> 31" by blast+
  have r: "0 \<le> r" "r < 86400000" by (simp_all add: r_def msPerDay_def)
  have h: "0 \<le> hh" "hh \<le> 23" unfolding hh_def using r by linarith+
  have mi: "0 \<le> mi" "mi \<le> 59" by (simp_all add: mi_def)
  have se: "0 \<le> ss" "ss \<le> 59" by (simp_all add: ss_def)
  have "nat 1 \<le> number (pad 2 m) \<and> number (pad 2 m) \<le> nat 12"
    using md(1,2) by (rule number_pad_2_range) simp_all
  moreover have "nat 1 \<le> number (pad 2 d) \<and> number (pad 2 d) \<le> nat 31"
    using md(3,4) by (rule number_pad_2_range) simp_all
  moreover have "nat 0 \<le> number (pad 2 hh) \<and> number (pad 2 hh) \<le> nat 23"
    using h by (rule number_pad_2_range) simp_all
  moreover have "nat 0 \<le> number (pad 2 mi) \<and> number (pad 2 mi) \<le> nat 59"
    using mi by (rule number_pad_2_range) simp_all
  moreover have "nat 0 \<le> number (pad 2 ss) \<and> number (pad 2 ss) \<le> nat 59"
    using se by (rule number_pad_2_range) simp_all
  ultimately have "1 \<le> number (pad 2 m)" "number (pad 2 m) \<le> 12"
    "1 \<le> number (pad 2 d)" "number (pad 2 d) \<le> 31"
    "number (pad 2 hh) \<le> 23" "number (pad 2 mi) \<le> 59" "number (pad 2 ss) \<le> 59"
    by simp_all
  then show ?thesis
    unfolding shape by (intro iso8601_utc_fields length_pad digits_pad)
qed

lemma toISOString_examples:
  "toISOString 0 = ''1970-01-01T00:00:00.000Z''"
  "toISOString (- 1) = ''1969-12-31T23:59:59.999Z''"
  "toISOString 951782400000 = ''2000-02-29T00:00:00.000Z''"
  "toISOString 1709251199999 = ''2024-02-29T23:59:59.999Z''"
  "toISOString 4107542400000 = ''2100-03-01T00:00:00.000Z''"
  "toISOString 253402300799999 = ''9999-12-31T23:59:59.999Z''"
  by code_simp+

lemma extname_no_dot:
  assumes "CHR ''.'' \<notin> set p"
  shows "extname p = []"
proof -
  define base where
    "base = rev (takeWhile (\<lambda>c. c \<noteq> CHR ''/'') (rev (rev (dropWhile (\<lambda>c. c = CHR ''/'') (rev p)))))"
  have "set base \<subseteq> set p"
  proof
    fix c assume "c \<in> set base"
    then have "c \<in> set (dropWhile (\<lambda>c. c = CHR ''/'') (rev p))"
      unfolding base_def by (auto dest: set_takeWhileD)
    then have "c \<in> set (rev p)" by (rule set_dropWhileD)
    then show "c \<in> set p" by simp
  qed
  with assms have "CHR ''.'' \<notin> set base" by blast
  then show ?thesis
    unfolding extname_def Let_def base_def [symmetric] by (simp only: not_False_eq_True if_True)
qed


lemma extname_stem_ext:
  assumes "CHR ''/'' \<notin> set stem" and "CHR ''/'' \<notin> set e" and "CHR ''.'' \<notin> set e"
    and "stem \<noteq> []" and "stem @ ''.'' @ e \<noteq> ''..''"
  shows "extname (stem @ ''.'' @ e) = ''.'' @ e"
proof -
  define p where "p = stem @ ''.'' @ e"
  have noslash: "\<forall>c\<in>set (rev p). c \<noteq> CHR ''/''"
    using assms(1,2) by (auto simp add: p_def)
  have trimmed: "dropWhile (\<lambda>c. c = CHR ''/'') (rev p) = rev p"
  proof (cases "rev p")
    case Nil
    then show ?thesis by simp
  next
    case (Cons a as)
    with noslash have "a \<noteq> CHR ''/''" by simp
    with Cons show ?thesis by simp
  qed
  have base: "takeWhile (\<lambda>c. c \<noteq> CHR ''/'') (rev p) = rev p"
    using noslash by (simp only: takeWhile_eq_all_conv) 
  have "rev p = rev e @ CHR ''.'' # rev stem" by (simp add: p_def)
  moreover have "\<forall>c\<in>set (rev e). c \<noteq> CHR ''.''" using assms(3) by auto
  ultimately have ext: "takeWhile (\<lambda>c. c \<noteq> CHR ''.'') (rev p) = rev e"
    by (simp only: takeWhile_tail [of "\<lambda>c. c \<noteq> CHR ''.''" "CHR ''.''" "rev e" "rev stem"] not_not takeWhile_eq_all_conv)
  have dot: "CHR ''.'' \<in> set p" by (simp add: p_def)
  have len: "Suc (length e) \<noteq> length p" using assms(4) by (simp add: p_def)
  have nd: "p \<noteq> ''..''" unfolding p_def by (rule assms(5))
  show ?thesis
    unfolding p_def [symmetric] extname_def Let_def trimmed rev_rev_ident base ext
    using dot len nd by (simp only: not_True_eq_False if_False length_rev append_Cons append_Nil)
qed

lemma extname_examples:
  "extname ''me.png'' = ''.png''" "extname ''portrait'' = []"
  "extname ''archive.tar.gz'' = ''.gz''" "extname ''.profile'' = []" "extname ''photo.'' = ''.''"
  by (simp_all add: extname_def Let_def)

section \<open>The handlers, case by case\<close>

lemmas store_defs = invoke_def uuidv4_def createIfNotExists_def uploadData_def items_create_def
  items_query_fetchAll_def catch_err_def

lemma stored_update [simp]:
  "stored (w\<lparr>calls := c\<rparr>) = stored w"
  "stored (w\<lparr>uuid_drawn := u\<rparr>) = stored w"
  by (rule ext, simp add: stored_def split: jsval.splits)+

lemma destructure_Inr:
  "body \<noteq> JUndefined \<Longrightarrow> body \<noteq> JNull \<Longrightarrow>
   destructure body = Inr (get_prop ''name'' body, get_prop ''age'' body, get_prop ''bio'' body,
     get_prop ''imageUrl'' body)"
  by (simp add: destructure_def)

lemma truthy_get_prop_body: "truthy (get_prop k body) \<Longrightarrow> body \<noteq> JUndefined \<and> body \<noteq> JNull"
  by (cases body) auto

lemma post_api_profiles_valid:
  assumes "truthy (get_prop ''name'' body)" and "get_prop ''age'' body \<noteq> JUndefined"
    and "truthy (get_prop ''bio'' body)" and "truthy (get_prop ''imageUrl'' body)"
    and "doc = new_doc (uuid_source w (uuid_drawn w)) (get_prop ''name'' body) (get_prop ''age'' body)
                  (get_prop ''bio'' body) (get_prop ''imageUrl'' body) (clock w)"
  shows "post_api_profiles body w =
     (case fault w (length (calls w)) (ItemsCreate doc) of
        Some e \<Rightarrow> (\<lparr>status = 500, payload = Send ''Create profile failed.''\<rparr>,
                   w\<lparr>uuid_drawn := Suc (uuid_drawn w), calls := calls w @ [ItemsCreate doc],
                     console := console w @ [e]\<rparr>)
      | None \<Rightarrow> (\<lparr>status = 201, payload = Json doc\<rparr>,
                 w\<lparr>uuid_drawn := Suc (uuid_drawn w), calls := calls w @ [ItemsCreate doc],
                   documents := documents w @ [stored w doc]\<rparr>))"
proof -
  from assms(1) have "body \<noteq> JUndefined" "body \<noteq> JNull"
    using truthy_get_prop_body by blast+
  then show ?thesis
    using assms
    by (simp add: post_api_profiles_def destructure_Inr store_defs Let_def split: option.splits)
qed

lemma post_api_profiles_invalid:
  assumes "\<not> truthy (get_prop ''name'' body) \<or> get_prop ''age'' body = JUndefined
         \<or> \<not> truthy (get_prop ''bio'' body) \<or> \<not> truthy (get_prop ''imageUrl'' body)"
  shows "post_api_profiles body w =
     (if body = JUndefined \<or> body = JNull
      then (\<lparr>status = 500, payload = Send ''Create profile failed.''\<rparr>,
            w\<lparr>console := console w @ [TypeError ''Cannot destructure property of req.body'']\<rparr>)
      else (\<lparr>status = 400, payload = Send ''Missing fields: name, age, bio, imageUrl are required.''\<rparr>, w))"
  using assms by (auto simp add: post_api_profiles_def destructure_def catch_err_def)

lemma get_prop_new_doc:
  "get_prop ''id'' (new_doc i n a b u t) = JStr i"
  "get_prop ''name'' (new_doc i n a b u t) = n"
  "get_prop ''age'' (new_doc i n a b u t) = a"
  "get_prop ''bio'' (new_doc i n a b u t) = b"
  "get_prop ''imageUrl'' (new_doc i n a b u t) = u"
  "get_prop ''createdAt'' (new_doc i n a b u t) = JStr (toISOString t)"
  by (simp_all add: new_doc_def get_own_def)


lemma get_api_profiles_id_eq:
  "get_api_profiles_id i w =
     (case fault w (length (calls w)) (ItemsQuery query_text [(''@id'', JStr i)]) of
        Some e \<Rightarrow> (\<lparr>status = 500, payload = Send ''Read profile failed.''\<rparr>,
                   w\<lparr>calls := calls w @ [ItemsQuery query_text [(''@id'', JStr i)]],
                     console := console w @ [e]\<rparr>)
      | None \<Rightarrow>
          (case filter (\<lambda>c. get_prop ''id'' c = JStr i) (documents w) of
             [] \<Rightarrow> (\<lparr>status = 404, payload = Send ''Not found''\<rparr>,
                     w\<lparr>calls := calls w @ [ItemsQuery query_text [(''@id'', JStr i)]]\<rparr>)
           | r # rs \<Rightarrow> (\<lparr>status = 200, payload = Json r\<rparr>,
                     w\<lparr>calls := calls w @ [ItemsQuery query_text [(''@id'', JStr i)]]\<rparr>)))"
  by (simp add: get_api_profiles_id_def store_defs split: option.splits list.splits)

lemma post_api_upload_Some:
  assumes "blobName = uuid_source w (uuid_drawn w)
             @ (if extname (originalname f) = [] then ''.jpg'' else extname (originalname f))"
  shows "post_api_upload (Some f) w =
     (case fault w (length (calls w)) CreateIfNotExists of
        Some e \<Rightarrow> (\<lparr>status = 500, payload = Send ''Upload failed.''\<rparr>,
                   w\<lparr>calls := calls w @ [CreateIfNotExists], console := console w @ [e]\<rparr>)
      | None \<Rightarrow>
          (case fault w (Suc (length (calls w))) (UploadData blobName (buffer f) (mimetype f)) of
             Some e \<Rightarrow> (\<lparr>status = 500, payload = Send ''Upload failed.''\<rparr>,
                        w\<lparr>container_exists := True, uuid_drawn := Suc (uuid_drawn w),
                          calls := calls w @ [CreateIfNotExists, UploadData blobName (buffer f) (mimetype f)],
                          console := console w @ [e]\<rparr>)
           | None \<Rightarrow> (\<lparr>status = 200, payload = Json (JObj [(''imageUrl'', JStr (blob_url w blobName))])\<rparr>,
                      w\<lparr>container_exists := True, uuid_drawn := Suc (uuid_drawn w),
                        calls := calls w @ [CreateIfNotExists, UploadData blobName (buffer f) (mimetype f)],
                        blobs := (blobs w)(blobName \<mapsto> \<lparr>content = buffer f, blobContentType = mimetype f\<rparr>)\<rparr>)))"
  using assms by (simp add: post_api_upload_def store_defs Let_def split: option.splits)

section \<open>The handlers on the concrete instances\<close>

lemma toISOString_example: "toISOString 1700000000000 = ''2023-11-14T22:13:20.000Z''"
  by code_simp

lemma inj_uuid0: "inj (\<lambda>n. ''3f2b-'' @ replicate n (CHR ''a''))"
proof (rule injI)
  fix x y :: nat
  assume "''3f2b-'' @ replicate x (CHR ''a'') = ''3f2b-'' @ replicate y (CHR ''a'')"
  then have "length (replicate x (CHR ''a'')) = length (replicate y (CHR ''a''))"
    by simp
  then show "x = y" by simp
qed

lemma ana_created:
  "post_api_profiles ana world0 =
     (\<lparr>status = 201,
       payload = Json (JObj [(''id'', JStr ''3f2b-''), (''name'', JStr ''Ana''), (''age'', JNum (Fin 30)),
         (''bio'', JStr ''hi''), (''imageUrl'', JStr ''https://x/y.jpg''),
         (''createdAt'', JStr ''2023-11-14T22:13:20.000Z'')])\<rparr>,
      world0\<lparr>uuid_drawn := 1,
        calls := [ItemsCreate (JObj [(''id'', JStr ''3f2b-''), (''name'', JStr ''Ana''),
          (''age'', JNum (Fin 30)), (''bio'', JStr ''hi''), (''imageUrl'', JStr ''https://x/y.jpg''),
          (''createdAt'', JStr ''2023-11-14T22:13:20.000Z'')])],
        documents := [JObj [(''id'', JStr ''3f2b-''), (''name'', JStr ''Ana''),
          (''age'', JNum (Fin 30)), (''bio'', JStr ''hi''), (''imageUrl'', JStr ''https://x/y.jpg''),
          (''createdAt'', JStr ''2023-11-14T22:13:20.000Z''), (''_etag'', JStr ''e1'')]]\<rparr>)"
  using post_api_profiles_valid [where body = ana and w = world0, OF _ _ _ _ refl]
  by (simp add: ana_def world0_def get_own_def new_doc_def stored_def toISOString_example)


lemma me_png_uploaded:
  "post_api_upload (Some me_png) world0 =
     (\<lparr>status = 200,
       payload = Json (JObj [(''imageUrl'', JStr ''https://acct.blob.example/photos/3f2b-.png'')])\<rparr>,
      world0\<lparr>container_exists := True, uuid_drawn := 1,
        calls := [CreateIfNotExists, UploadData ''3f2b-.png'' [137, 80, 78, 71] ''image/png''],
        blobs := [''3f2b-.png'' \<mapsto> \<lparr>content = [137, 80, 78, 71], blobContentType = ''image/png''\<rparr>]\<rparr>)"
  using post_api_upload_Some [where f = me_png and w = world0, OF refl]
  by (simp add: me_png_def world0_def extname_examples)

lemma portrait_uploaded:
  "post_api_upload (Some portrait) world0 =
     (\<lparr>status = 200,
       payload = Json (JObj [(''imageUrl'', JStr ''https://acct.blob.example/photos/3f2b-.jpg'')])\<rparr>,
      world0\<lparr>container_exists := True, uuid_drawn := 1,
        calls := [CreateIfNotExists, UploadData ''3f2b-.jpg'' [255, 216, 255] ''image/jpeg''],
        blobs := [''3f2b-.jpg'' \<mapsto> \<lparr>content = [255, 216, 255], blobContentType = ''image/jpeg''\<rparr>]\<rparr>)"
  using post_api_upload_Some [where f = portrait and w = world0, OF refl]
  by (simp add: portrait_def world0_def extname_examples)

section \<open>The claims\<close>



text \<open>
  Claim C2. When \<^verbatim>\<open>name\<close>, \<^verbatim>\<open>bio\<close> and \<^verbatim>\<open>imageUrl\<close> are truthy and \<^verbatim>\<open>age\<close> is not
  \<^verbatim>\<open>undefined\<close>, and the document store accepts the call, \<^verbatim>\<open>POST /api/profiles\<close> draws
  the next identifier of the generator, composes the record from it, the four fields and the
  clock's reading, hands that record to the store, which holds it from then on, and answers 201
  with the record as JSON. The record's \<^verbatim>\<open>createdAt\<close> is the clock's reading as
  \<^verbatim>\<open>toISOString\<close> prints it, which for a clock between the years 0 and 9999 has the ISO-8601
  shape \<^verbatim>\<open>YYYY-MM-DDTHH:mm:ss.sssZ\<close>. The identifier differs from every identifier drawn
  before, provided the generator never repeats itself.
\<close>

theorem create_profile_success:
  assumes "truthy (get_prop ''name'' body)" and "get_prop ''age'' body \<noteq> JUndefined"
    and "truthy (get_prop ''bio'' body)" and "truthy (get_prop ''imageUrl'' body)"
    and "doc = new_doc (uuid_source w (uuid_drawn w)) (get_prop ''name'' body) (get_prop ''age'' body)
                  (get_prop ''bio'' body) (get_prop ''imageUrl'' body) (clock w)"
    and "fault w (length (calls w)) (ItemsCreate doc) = None"
    and "- 62167219200000 \<le> clock w" and "clock w < 253402300800000"
  shows "post_api_profiles body w =
           (\<lparr>status = 201, payload = Json doc\<rparr>,
            w\<lparr>uuid_drawn := Suc (uuid_drawn w), calls := calls w @ [ItemsCreate doc],
              documents := documents w @ [stored w doc]\<rparr>)
       \<and> get_prop ''id'' doc = JStr (uuid_source w (uuid_drawn w))
       \<and> get_prop ''createdAt'' doc = JStr (toISOString (clock w))
       \<and> iso8601_utc (toISOString (clock w))
       \<and> (inj (uuid_source w) \<longrightarrow> (\<forall>k<uuid_drawn w. uuid_source w k \<noteq> uuid_source w (uuid_drawn w)))"
proof -
  have "post_api_profiles body w =
           (\<lparr>status = 201, payload = Json doc\<rparr>,
            w\<lparr>uuid_drawn := Suc (uuid_drawn w), calls := calls w @ [ItemsCreate doc],
              documents := documents w @ [stored w doc]\<rparr>)"
    using assms(6) by (simp add: post_api_profiles_valid [OF assms(1-5)])
  moreover have "iso8601_utc (toISOString (clock w))"
    using assms(7,8) by (rule toISOString_iso8601)
  moreover have "inj (uuid_source w) \<longrightarrow> (\<forall>k<uuid_drawn w. uuid_source w k \<noteq> uuid_source w (uuid_drawn w))"
    by (auto dest: injD)
  ultimately show ?thesis
    by (simp add: assms(5) get_prop_new_doc)
qed

theorem create_profile_success_witness:
  "post_api_profiles ana (world0\<lparr>uuid_drawn := 2\<rparr>) =
     (\<lparr>status = 201,
       payload = Json (JObj [(''id'', JStr ''3f2b-aa''), (''name'', JStr ''Ana''), (''age'', JNum (Fin 30)),
         (''bio'', JStr ''hi''), (''imageUrl'', JStr ''https://x/y.jpg''),
         (''createdAt'', JStr ''2023-11-14T22:13:20.000Z'')])\<rparr>,
      world0\<lparr>uuid_drawn := 3,
        calls := [ItemsCreate (JObj [(''id'', JStr ''3f2b-aa''), (''name'', JStr ''Ana''),
          (''age'', JNum (Fin 30)), (''bio'', JStr ''hi''), (''imageUrl'', JStr ''https://x/y.jpg''),
          (''createdAt'', JStr ''2023-11-14T22:13:20.000Z'')])],
        documents := [JObj [(''id'', JStr ''3f2b-aa''), (''name'', JStr ''Ana''),
          (''age'', JNum (Fin 30)), (''bio'', JStr ''hi''), (''imageUrl'', JStr ''https://x/y.jpg''),
          (''createdAt'', JStr ''2023-11-14T22:13:20.000Z''), (''_etag'', JStr ''e1'')]]\<rparr>)
   \<and> iso8601_utc ''2023-11-14T22:13:20.000Z''
   \<and> uuid_source world0 0 \<noteq> ''3f2b-aa'' \<and> uuid_source world0 1 \<noteq> ''3f2b-aa''"
  using create_profile_success [where body = ana and w = "world0\<lparr>uuid_drawn := 2\<rparr>"
      and doc = "new_doc ''3f2b-aa'' (JStr ''Ana'') (JNum (Fin 30)) (JStr ''hi'') (JStr ''https://x/y.jpg'') 1700000000000"]
    inj_uuid0
  by (simp add: ana_def world0_def get_own_def new_doc_def stored_def toISOString_example numeral_2_eq_2 numeral_3_eq_3)



text \<open>
  Claim C4. \<^verbatim>\<open>GET /api/profiles/:id\<close> issues one query,
  \<^verbatim>\<open>SELECT * FROM c WHERE c.id = @id\<close> with the path parameter as \<^verbatim>\<open>@id\<close>. When the store
  accepts it: no matching item gives 404 with the text \<^verbatim>\<open>Not found\<close>, and one or more
  matching items give 200 with the first of them as JSON.
\<close>

theorem read_profile_by_id:
  assumes "q = ItemsQuery query_text [(''@id'', JStr i)]"
    and "fault w (length (calls w)) q = None"
    and "matches = filter (\<lambda>c. get_prop ''id'' c = JStr i) (documents w)"
  shows "calls (snd (get_api_profiles_id i w)) = calls w @ [q]
       \<and> (matches = [] \<longrightarrow>
            get_api_profiles_id i w =
              (\<lparr>status = 404, payload = Send ''Not found''\<rparr>, w\<lparr>calls := calls w @ [q]\<rparr>))
       \<and> (matches \<noteq> [] \<longrightarrow>
            get_api_profiles_id i w =
              (\<lparr>status = 200, payload = Json (hd matches)\<rparr>, w\<lparr>calls := calls w @ [q]\<rparr>))"
  using assms by (simp add: get_api_profiles_id_eq split: list.splits)

theorem read_profile_by_id_witness:
  "get_api_profiles_id ''p1'' world0 =
     (\<lparr>status = 404, payload = Send ''Not found''\<rparr>,
      world0\<lparr>calls := [ItemsQuery query_text [(''@id'', JStr ''p1'')]]\<rparr>)
   \<and> get_api_profiles_id ''p1''
       (world0\<lparr>documents := [JObj [(''id'', JStr ''p0'')], JObj [(''id'', JStr ''p1''), (''name'', JStr ''A'')],
                               JObj [(''id'', JStr ''p1''), (''name'', JStr ''B'')]]\<rparr>) =
     (\<lparr>status = 200, payload = Json (JObj [(''id'', JStr ''p1''), (''name'', JStr ''A'')])\<rparr>,
      world0\<lparr>documents := [JObj [(''id'', JStr ''p0'')], JObj [(''id'', JStr ''p1''), (''name'', JStr ''A'')],
                               JObj [(''id'', JStr ''p1''), (''name'', JStr ''B'')]],
        calls := [ItemsQuery query_text [(''@id'', JStr ''p1'')]]\<rparr>)"
  using read_profile_by_id [where i = "''p1''" and w = world0, OF refl _ refl]
    read_profile_by_id [where i = "''p1''"
      and w = "world0\<lparr>documents := [JObj [(''id'', JStr ''p0'')],
                 JObj [(''id'', JStr ''p1''), (''name'', JStr ''A'')],
                 JObj [(''id'', JStr ''p1''), (''name'', JStr ''B'')]]\<rparr>", OF refl _ refl]
  by (simp add: world0_def get_own_def)

text \<open>
  Claim C5. Whenever \<^verbatim>\<open>POST /api/upload\<close> answers 200, there was a file; the blob's name
  is a newly drawn identifier followed by \<^verbatim>\<open>path.extname\<close> of the file's original name, or
  by \<^verbatim>\<open>.jpg\<close> when that extension is empty; the container check and the write of the
  file's bytes with the file's MIME type as content type are the two calls issued, in this
  order; afterwards the container holds these bytes and this content type under that name; and
  the answer is the JSON object whose one property \<^verbatim>\<open>imageUrl\<close> is the URL of that blob.
\<close>

theorem upload_success:
  assumes "post_api_upload file w = (r, w')" and "status r = 200"
  shows "\<exists>f blobName.
           file = Some f
         \<and> blobName = uuid_source w (uuid_drawn w)
              @ (if extname (originalname f) = [] then ''.jpg'' else extname (originalname f))
         \<and> r = \<lparr>status = 200, payload = Json (JObj [(''imageUrl'', JStr (blob_url w blobName))])\<rparr>
         \<and> blobs w' blobName = Some \<lparr>content = buffer f, blobContentType = mimetype f\<rparr>
         \<and> calls w' = calls w @ [CreateIfNotExists, UploadData blobName (buffer f) (mimetype f)]
         \<and> uuid_drawn w' = Suc (uuid_drawn w)"
proof (cases "file")
  case None
  with assms show ?thesis by (auto simp add: post_api_upload_def)
next
  case (Some f)
  define blobName where "blobName = uuid_source w (uuid_drawn w)
     @ (if extname (originalname f) = [] then ''.jpg'' else extname (originalname f))"
  from assms Some post_api_upload_Some [OF blobName_def]
  have "r = \<lparr>status = 200, payload = Json (JObj [(''imageUrl'', JStr (blob_url w blobName))])\<rparr>
      \<and> w' = w\<lparr>container_exists := True, uuid_drawn := Suc (uuid_drawn w),
                 calls := calls w @ [CreateIfNotExists, UploadData blobName (buffer f) (mimetype f)],
                 blobs := (blobs w)(blobName \<mapsto> \<lparr>content = buffer f, blobContentType = mimetype f\<rparr>)\<rparr>"
    by (auto split: option.splits)
  with Some blobName_def show ?thesis by simp
qed

theorem upload_success_witness:
  "status (fst (post_api_upload (Some me_png) world0)) = 200
   \<and> payload (fst (post_api_upload (Some me_png) world0)) =
       Json (JObj [(''imageUrl'', JStr ''https://acct.blob.example/photos/3f2b-.png'')])
   \<and> blobs (snd (post_api_upload (Some me_png) world0)) ''3f2b-.png'' =
       Some \<lparr>content = [137, 80, 78, 71], blobContentType = ''image/png''\<rparr>
   \<and> status (fst (post_api_upload (Some portrait) world0)) = 200
   \<and> blobs (snd (post_api_upload (Some portrait) world0)) ''3f2b-.jpg'' =
       Some \<lparr>content = [255, 216, 255], blobContentType = ''image/jpeg''\<rparr>"
proof -
  have a: "status (fst (post_api_upload (Some me_png) world0)) = 200"
    by (simp add: me_png_uploaded)
  have b: "status (fst (post_api_upload (Some portrait) world0)) = 200"
    by (simp add: portrait_uploaded)
  from upload_success [OF prod.collapse [symmetric] a] upload_success [OF prod.collapse [symmetric] b]
  show ?thesis
    by (auto simp add: me_png_def portrait_def world0_def extname_examples)
qed


text \<open>
  Claim C7. When the object store rejects the container check or the blob write, or the
  document store rejects the create call or the query, with any error \<open>e\<close>, the handler
  answers 500 with a text that is fixed for the endpoint (\<^verbatim>\<open>Upload failed.\<close>,
  \<^verbatim>\<open>Create profile failed.\<close>, \<^verbatim>\<open>Read profile failed.\<close>) and so carries nothing of
  \<open>e\<close>, which goes to the console only. The trace of calls ends with the rejected call,
  issued once: it is not retried, and no other call follows it.
\<close>

theorem store_failure_is_500:
  "(fault w (length (calls w)) CreateIfNotExists = Some e \<longrightarrow>
      post_api_upload (Some f) w =
        (\<lparr>status = 500, payload = Send ''Upload failed.''\<rparr>,
         w\<lparr>calls := calls w @ [CreateIfNotExists], console := console w @ [e]\<rparr>))
   \<and> (fault w (length (calls w)) CreateIfNotExists = None
        \<and> blobName = uuid_source w (uuid_drawn w)
             @ (if extname (originalname f) = [] then ''.jpg'' else extname (originalname f))
        \<and> fault w (Suc (length (calls w))) (UploadData blobName (buffer f) (mimetype f)) = Some e \<longrightarrow>
      post_api_upload (Some f) w =
        (\<lparr>status = 500, payload = Send ''Upload failed.''\<rparr>,
         w\<lparr>container_exists := True, uuid_drawn := Suc (uuid_drawn w),
           calls := calls w @ [CreateIfNotExists, UploadData blobName (buffer f) (mimetype f)],
           console := console w @ [e]\<rparr>))
   \<and> (truthy (get_prop ''name'' body) \<and> get_prop ''age'' body \<noteq> JUndefined
        \<and> truthy (get_prop ''bio'' body) \<and> truthy (get_prop ''imageUrl'' body)
        \<and> doc = new_doc (uuid_source w (uuid_drawn w)) (get_prop ''name'' body) (get_prop ''age'' body)
                  (get_prop ''bio'' body) (get_prop ''imageUrl'' body) (clock w)
        \<and> fault w (length (calls w)) (ItemsCreate doc) = Some e \<longrightarrow>
      post_api_profiles body w =
        (\<lparr>status = 500, payload = Send ''Create profile failed.''\<rparr>,
         w\<lparr>uuid_drawn := Suc (uuid_drawn w), calls := calls w @ [ItemsCreate doc],
           console := console w @ [e]\<rparr>))
   \<and> (fault w (length (calls w)) (ItemsQuery query_text [(''@id'', JStr i)]) = Some e \<longrightarrow>
      get_api_profiles_id i w =
        (\<lparr>status = 500, payload = Send ''Read profile failed.''\<rparr>,
         w\<lparr>calls := calls w @ [ItemsQuery query_text [(''@id'', JStr i)]],
           console := console w @ [e]\<rparr>))"
proof (intro conjI impI)
  assume "fault w (length (calls w)) CreateIfNotExists = Some e"
  then show "post_api_upload (Some f) w =
        (\<lparr>status = 500, payload = Send ''Upload failed.''\<rparr>,
         w\<lparr>calls := calls w @ [CreateIfNotExists], console := console w @ [e]\<rparr>)"
    by (simp add: post_api_upload_Some [OF refl])
next
  assume "fault w (length (calls w)) CreateIfNotExists = None
        \<and> blobName = uuid_source w (uuid_drawn w)
             @ (if extname (originalname f) = [] then ''.jpg'' else extname (originalname f))
        \<and> fault w (Suc (length (calls w))) (UploadData blobName (buffer f) (mimetype f)) = Some e"
  then have a: "fault w (length (calls w)) CreateIfNotExists = None"
    and b: "blobName = uuid_source w (uuid_drawn w)
             @ (if extname (originalname f) = [] then ''.jpg'' else extname (originalname f))"
    and c: "fault w (Suc (length (calls w))) (UploadData blobName (buffer f) (mimetype f)) = Some e"
    by blast+
  show "post_api_upload (Some f) w =
        (\<lparr>status = 500, payload = Send ''Upload failed.''\<rparr>,
         w\<lparr>container_exists := True, uuid_drawn := Suc (uuid_drawn w),
           calls := calls w @ [CreateIfNotExists, UploadData blobName (buffer f) (mimetype f)],
           console := console w @ [e]\<rparr>)"
    unfolding post_api_upload_Some [OF b] by (simp add: a c)
next
  assume "truthy (get_prop ''name'' body) \<and> get_prop ''age'' body \<noteq> JUndefined
        \<and> truthy (get_prop ''bio'' body) \<and> truthy (get_prop ''imageUrl'' body)
        \<and> doc = new_doc (uuid_source w (uuid_drawn w)) (get_prop ''name'' body) (get_prop ''age'' body)
                  (get_prop ''bio'' body) (get_prop ''imageUrl'' body) (clock w)
        \<and> fault w (length (calls w)) (ItemsCreate doc) = Some e"
  then have v: "truthy (get_prop ''name'' body)" "get_prop ''age'' body \<noteq> JUndefined"
      "truthy (get_prop ''bio'' body)" "truthy (get_prop ''imageUrl'' body)"
      "doc = new_doc (uuid_source w (uuid_drawn w)) (get_prop ''name'' body) (get_prop ''age'' body)
                  (get_prop ''bio'' body) (get_prop ''imageUrl'' body) (clock w)"
    and c: "fault w (length (calls w)) (ItemsCreate doc) = Some e"
    by blast+
  show "post_api_profiles body w =
        (\<lparr>status = 500, payload = Send ''Create profile failed.''\<rparr>,
         w\<lparr>uuid_drawn := Suc (uuid_drawn w), calls := calls w @ [ItemsCreate doc],
           console := console w @ [e]\<rparr>)"
    unfolding post_api_profiles_valid [OF v] by (simp add: c)
next
  assume "fault w (length (calls w)) (ItemsQuery query_text [(''@id'', JStr i)]) = Some e"
  then show "get_api_profiles_id i w =
        (\<lparr>status = 500, payload = Send ''Read profile failed.''\<rparr>,
         w\<lparr>calls := calls w @ [ItemsQuery query_text [(''@id'', JStr i)]],
           console := console w @ [e]\<rparr>)"
    by (simp add: get_api_profiles_id_eq)
qed

theorem store_failure_is_500_witness:
  "post_api_upload (Some me_png) down =
     (\<lparr>status = 500, payload = Send ''Upload failed.''\<rparr>,
      down\<lparr>calls := [CreateIfNotExists], console := [outage]\<rparr>)
   \<and> post_api_upload (Some me_png) flaky =
     (\<lparr>status = 500, payload = Send ''Upload failed.''\<rparr>,
      flaky\<lparr>container_exists := True, uuid_drawn := 1,
        calls := [CreateIfNotExists, UploadData ''3f2b-.png'' [137, 80, 78, 71] ''image/png''],
        console := [outage]\<rparr>)
   \<and> post_api_profiles ana down =
     (\<lparr>status = 500, payload = Send ''Create profile failed.''\<rparr>,
      down\<lparr>uuid_drawn := 1,
        calls := [ItemsCreate (JObj [(''id'', JStr ''3f2b-''), (''name'', JStr ''Ana''),
          (''age'', JNum (Fin 30)), (''bio'', JStr ''hi''), (''imageUrl'', JStr ''https://x/y.jpg''),
          (''createdAt'', JStr ''2023-11-14T22:13:20.000Z'')])],
        console := [outage]\<rparr>)
   \<and> get_api_profiles_id ''p1'' down =
     (\<lparr>status = 500, payload = Send ''Read profile failed.''\<rparr>,
      down\<lparr>calls := [ItemsQuery query_text [(''@id'', JStr ''p1'')]], console := [outage]\<rparr>)"
  using store_failure_is_500 [where w = down and e = outage and f = me_png and body = ana
      and i = "''p1''" and blobName = "''3f2b-.png''"
      and doc = "new_doc ''3f2b-'' (JStr ''Ana'') (JNum (Fin 30)) (JStr ''hi'') (JStr ''https://x/y.jpg'') 1700000000000"]
    store_failure_is_500 [where w = flaky and e = outage and f = me_png and blobName = "''3f2b-.png''"]
  by (simp add: down_def flaky_def world0_def me_png_def ana_def extname_examples get_own_def new_doc_def
      toISOString_example)

text \<open>
  Claim C8. An upload whose file is larger than 4 MiB (4194304 bytes, the limit the source
  configures) is rejected by the multipart middleware: the handler does not run, and the world
  is unchanged, so that no object-store call is made.
\<close>

theorem oversized_upload_rejected:
  assumes "length (buffer f) > 4 * 1024 * 1024"
  shows "route_api_upload (Some f) w = (Inl LIMIT_FILE_SIZE, w)"
  using assms by (simp add: route_api_upload_def upload_single_def fileSize_def)

theorem oversized_upload_rejected_witness:
  "length (buffer too_big) = 4194305
   \<and> route_api_upload (Some too_big) world0 = (Inl LIMIT_FILE_SIZE, world0)"
  using oversized_upload_rejected [of too_big world0]
  by (simp add: too_big_def)

text \<open>
  Claim C9. \<^verbatim>\<open>POST /api/profiles\<close> reads \<^verbatim>\<open>name\<close>, \<^verbatim>\<open>age\<close>, \<^verbatim>\<open>bio\<close> and
  \<^verbatim>\<open>imageUrl\<close> of the body and nothing else: two bodies that agree on these four
  properties are handled alike, whatever else the client put into them (an \<^verbatim>\<open>id\<close>, a
  \<^verbatim>\<open>createdAt\<close>, other properties). And every record answered with 201 has exactly the six
  properties \<^verbatim>\<open>id\<close>, \<^verbatim>\<open>name\<close>, \<^verbatim>\<open>age\<close>, \<^verbatim>\<open>bio\<close>, \<^verbatim>\<open>imageUrl\<close>,
  \<^verbatim>\<open>createdAt\<close>, in this order, with \<^verbatim>\<open>id\<close> the generator's next identifier and
  \<^verbatim>\<open>createdAt\<close> the clock's reading; this is the record handed to the store.
\<close>

theorem create_reads_four_fields_only:
  "((\<forall>k \<in> {''name'', ''age'', ''bio'', ''imageUrl''}. get_own kvs k = get_own kvs' k) \<longrightarrow>
      post_api_profiles (JObj kvs) w = post_api_profiles (JObj kvs') w)
   \<and> (post_api_profiles body w = (r, w') \<and> status r = 201 \<longrightarrow>
        (\<exists>name age bio imageUrl doc.
            doc = JObj [(''id'', JStr (uuid_source w (uuid_drawn w))), (''name'', name), (''age'', age),
                        (''bio'', bio), (''imageUrl'', imageUrl),
                        (''createdAt'', JStr (toISOString (clock w)))]
          \<and> r = \<lparr>status = 201, payload = Json doc\<rparr>
          \<and> calls w' = calls w @ [ItemsCreate doc]
          \<and> documents w' = documents w @ [stored w doc]))"
proof (intro conjI impI)
  assume "\<forall>k \<in> {''name'', ''age'', ''bio'', ''imageUrl''}. get_own kvs k = get_own kvs' k"
  then show "post_api_profiles (JObj kvs) w = post_api_profiles (JObj kvs') w"
    by (simp add: post_api_profiles_def destructure_def)
next
  assume a: "post_api_profiles body w = (r, w') \<and> status r = 201"
  define doc where "doc = new_doc (uuid_source w (uuid_drawn w)) (get_prop ''name'' body)
      (get_prop ''age'' body) (get_prop ''bio'' body) (get_prop ''imageUrl'' body) (clock w)"
  have "\<not> (\<not> truthy (get_prop ''name'' body) \<or> get_prop ''age'' body = JUndefined
         \<or> \<not> truthy (get_prop ''bio'' body) \<or> \<not> truthy (get_prop ''imageUrl'' body))"
  proof
    assume "\<not> truthy (get_prop ''name'' body) \<or> get_prop ''age'' body = JUndefined
         \<or> \<not> truthy (get_prop ''bio'' body) \<or> \<not> truthy (get_prop ''imageUrl'' body)"
    from post_api_profiles_invalid [OF this, of w] a show False
      by (auto split: if_splits)
  qed
  then have valid: "truthy (get_prop ''name'' body)" "get_prop ''age'' body \<noteq> JUndefined"
      "truthy (get_prop ''bio'' body)" "truthy (get_prop ''imageUrl'' body)"
    by blast+
  from post_api_profiles_valid [OF valid doc_def] a
  have "r = \<lparr>status = 201, payload = Json doc\<rparr>"
    and "w' = w\<lparr>uuid_drawn := Suc (uuid_drawn w), calls := calls w @ [ItemsCreate doc],
                   documents := documents w @ [stored w doc]\<rparr>"
    by (auto split: option.splits)
  then show "\<exists>name age bio imageUrl doc.
            doc = JObj [(''id'', JStr (uuid_source w (uuid_drawn w))), (''name'', name), (''age'', age),
                        (''bio'', bio), (''imageUrl'', imageUrl),
                        (''createdAt'', JStr (toISOString (clock w)))]
          \<and> r = \<lparr>status = 201, payload = Json doc\<rparr>
          \<and> calls w' = calls w @ [ItemsCreate doc]
          \<and> documents w' = documents w @ [stored w doc]"
    by (simp add: doc_def new_doc_def)
qed

theorem create_reads_four_fields_only_witness:
  "post_api_profiles ana_forged world0 = post_api_profiles ana world0
   \<and> fst (post_api_profiles ana_forged world0) =
       \<lparr>status = 201,
        payload = Json (JObj [(''id'', JStr ''3f2b-''), (''name'', JStr ''Ana''), (''age'', JNum (Fin 30)),
          (''bio'', JStr ''hi''), (''imageUrl'', JStr ''https://x/y.jpg''),
          (''createdAt'', JStr ''2023-11-14T22:13:20.000Z'')])\<rparr>"
proof -
  have eq: "post_api_profiles ana_forged world0 = post_api_profiles ana world0"
    using create_reads_four_fields_only
      [where kvs = "[(''id'', JStr ''mine''), (''createdAt'', JStr ''1999-01-01T00:00:00.000Z''),
                      (''name'', JStr ''Ana''), (''age'', JNum (Fin 30)), (''bio'', JStr ''hi''),
                      (''imageUrl'', JStr ''https://x/y.jpg''), (''admin'', JBool True)]"
        and kvs' = "[(''name'', JStr ''Ana''), (''age'', JNum (Fin 30)), (''bio'', JStr ''hi''),
               (''imageUrl'', JStr ''https://x/y.jpg'')]" and w = world0]
    by (simp add: ana_forged_def ana_def get_own_def)
  then show ?thesis
    using create_reads_four_fields_only [where body = ana_forged and w = world0
        and r = "fst (post_api_profiles ana_forged world0)"
        and w' = "snd (post_api_profiles ana_forged world0)"]
    by (simp add: ana_created)
qed



end
